theory Spec2Isabelle
  imports Main "HOL-Library.Log_Nat"
begin

section \<open>Strings and characters\<close>

text \<open>
  A Python \<open>str\<close> is modelled as a \<open>string\<close>; a \<open>char\<close> stands for the code point of the
  same number, so the model covers the texts over U+0000 .. U+00FF.
\<close>

definition code_point :: "char \<Rightarrow> nat" where
  "code_point c = of_char c"

text \<open>\<open>c.isalnum()\<close> on the code points below 256.\<close>

definition isalnum :: "char \<Rightarrow> bool" where
  "isalnum c =
     (let n = code_point c in
        (48 \<le> n \<and> n \<le> 57) \<or> (65 \<le> n \<and> n \<le> 90) \<or> (97 \<le> n \<and> n \<le> 122) \<or>
        n = 170 \<or> n = 178 \<or> n = 179 \<or> n = 181 \<or> n = 185 \<or> n = 186 \<or>
        n = 188 \<or> n = 189 \<or> n = 190 \<or>
        (192 \<le> n \<and> n \<le> 214) \<or> (216 \<le> n \<and> n \<le> 246) \<or> (248 \<le> n \<and> n \<le> 255))"

text \<open>\<open>c.isspace()\<close> on the code points below 256: what \<open>str.strip()\<close> removes.\<close>

definition isspace :: "char \<Rightarrow> bool" where
  "isspace c =
     (let n = code_point c in (9 \<le> n \<and> n \<le> 13) \<or> (28 \<le> n \<and> n \<le> 32) \<or> n = 133 \<or> n = 160)"

definition strip :: "string \<Rightarrow> string" where
  "strip s = rev (dropWhile isspace (rev (dropWhile isspace s)))"

text \<open>\<open>c in " -_"\<close> and \<open>c in " -&_"\<close>.\<close>

definition in_space_hyphen_underscore :: "char \<Rightarrow> bool" where
  "in_space_hyphen_underscore c = (c \<in> set '' -_'')"

definition in_space_hyphen_amp_underscore :: "char \<Rightarrow> bool" where
  "in_space_hyphen_amp_underscore c = (c \<in> set '' -&_'')"

section \<open>Exceptions\<close>

text \<open>
  Every exception of the program is a value. A \<open>ValueError\<close> raised inside a pydantic
  validator is reported by pydantic as a \<open>ValidationError\<close> of the model; the messages of
  \<open>ValueError\<close> are read by nobody and are not kept. \<open>HTTPException\<close> keeps its status code and
  its detail.
\<close>

datatype exn =
    ValueError
  | OverflowError
  | ValidationError
  | HTTPException nat string

text \<open>
  The status of the response that carries an exception out of a request: the framework answers a
  request whose body fails the model's validation with 422, an \<open>HTTPException\<close> with its own
  status, and any other exception with 500.
\<close>

fun status_code :: "exn \<Rightarrow> nat" where
  "status_code ValidationError = 422"
| "status_code (HTTPException st detail) = st"
| "status_code ValueError = 500"
| "status_code OverflowError = 500"

definition client_error :: "exn \<Rightarrow> bool" where
  "client_error e = (400 \<le> status_code e \<and> status_code e < 500)"

section \<open>Floating-point numbers\<close>

text \<open>
  A Python \<open>float\<close> is an IEEE 754 binary64 number. \<open>Finite s m e\<close> is the number
  \<open>(-1)^s * m * 2^e\<close> (with \<open>m = 0\<close> for the two zeros), \<open>Infinity s\<close> the infinity of sign
  \<open>s\<close> (\<open>True\<close> is minus).
\<close>

datatype pyfloat = Finite bool nat int | Infinity bool | NaN

text \<open>The integer nearest to \<open>a / b\<close>, a tie going to the even one (\<open>0 < b\<close>).\<close>

definition round_half_even :: "nat \<Rightarrow> nat \<Rightarrow> nat" where
  "round_half_even a b =
     (let f = a div b; r = a mod b in
        if 2 * r < b then f
        else if b < 2 * r then f + 1
        else if even f then f else f + 1)"

text \<open>The exponent \<open>k\<close> with \<open>2^k \<le> a / b < 2^(k+1)\<close> (\<open>0 < a\<close>, \<open>0 < b\<close>).\<close>

definition floor_log2 :: "nat \<Rightarrow> nat \<Rightarrow> int" where
  "floor_log2 a b =
     (let d = int (floorlog 2 a) - int (floorlog 2 b) in
        if (if 0 \<le> d then b * 2 ^ nat d \<le> a else b \<le> a * 2 ^ nat (- d)) then d else d - 1)"

text \<open>
  The binary64 number nearest to \<open>(-1)^s * a / b\<close> (\<open>0 < b\<close>), ties to even: 53 bits of
  precision, the least exponent of a unit in the last place is -1074 (below it the numbers are
  subnormal), and what rounds to \<open>2^1024\<close> or more is an infinity.
\<close>

definition round_to_double :: "bool \<Rightarrow> nat \<Rightarrow> nat \<Rightarrow> pyfloat" where
  "round_to_double s a b =
     (if a = 0 then Finite s 0 0
      else
        let q = max (floor_log2 a b - 52) (- 1074);
            m = (if 0 \<le> q then round_half_even a (b * 2 ^ nat q)
                 else round_half_even (a * 2 ^ nat (- q)) b)
        in if 971 < q \<or> (q = 971 \<and> m = 2 ^ 53) then Infinity s else Finite s m q)"

text \<open>\<open>x < 0\<close>, \<open>x.is_integer()\<close> and \<open>x % 0.25 == 0\<close>. The remainder of an infinity or of
  a NaN is a NaN, which is not equal to 0; the remainder of a finite number by 0.25 is computed
  without rounding, and is a zero exactly when the number is a multiple of 1/4.\<close>

fun float_lt_zero :: "pyfloat \<Rightarrow> bool" where
  "float_lt_zero (Finite s m e) = (s \<and> 0 < m)"
| "float_lt_zero (Infinity s) = s"
| "float_lt_zero NaN = False"

fun is_integer :: "pyfloat \<Rightarrow> bool" where
  "is_integer (Finite s m e) = (0 \<le> e \<or> 2 ^ nat (- e) dvd m)"
| "is_integer (Infinity s) = False"
| "is_integer NaN = False"

fun mod_quarter_eq_zero :: "pyfloat \<Rightarrow> bool" where
  "mod_quarter_eq_zero (Finite s m e) = (- 2 \<le> e \<or> 2 ^ nat (- e - 2) dvd m)"
| "mod_quarter_eq_zero (Infinity s) = False"
| "mod_quarter_eq_zero NaN = False"

text \<open>The product of two floats: the exact product, rounded.\<close>

fun float_mul :: "pyfloat \<Rightarrow> pyfloat \<Rightarrow> pyfloat" where
  "float_mul (Finite s m e) (Finite t n f) =
     (if 0 \<le> e + f then round_to_double (s \<noteq> t) (m * n * 2 ^ nat (e + f)) 1
      else round_to_double (s \<noteq> t) (m * n) (2 ^ nat (- (e + f))))"
| "float_mul (Finite s m e) (Infinity t) = (if m = 0 then NaN else Infinity (s \<noteq> t))"
| "float_mul (Infinity s) (Finite t n f) = (if n = 0 then NaN else Infinity (s \<noteq> t))"
| "float_mul (Infinity s) (Infinity t) = Infinity (s \<noteq> t)"
| "float_mul NaN y = NaN"
| "float_mul x NaN = NaN"

text \<open>The float of the literal \<open>0.2\<close>, which is \<open>7205759403792794 / 2^55\<close>.\<close>

definition float_0_2 :: pyfloat where
  "float_0_2 = Finite False 7205759403792794 (- 55)"

section \<open>Reading a float: \<open>float(value)\<close>\<close>

definition isdigit :: "char \<Rightarrow> bool" where
  "isdigit c = (48 \<le> code_point c \<and> code_point c \<le> 57)"

definition digits_value :: "string \<Rightarrow> nat" where
  "digits_value ds = foldl (\<lambda>n c. 10 * n + (code_point c - 48)) 0 ds"

text \<open>
  The white space that \<open>float\<close> strips from both ends: the ASCII white space, and the two
  other white-space characters below 256, which \<open>float\<close> turns into spaces first.
\<close>

definition float_isspace :: "char \<Rightarrow> bool" where
  "float_isspace c =
     (let n = code_point c in (9 \<le> n \<and> n \<le> 13) \<or> n = 32 \<or> n = 133 \<or> n = 160)"

text \<open>
  Underscores are removed before the number is read; each must stand between two digits.
  The first argument is the previous character (NUL at the start).
\<close>

fun remove_underscores :: "char \<Rightarrow> string \<Rightarrow> string option" where
  "remove_underscores prev [] = (if prev = CHR ''_'' then None else Some [])"
| "remove_underscores prev (c # cs) =
     (if c = CHR ''_'' then (if isdigit prev then remove_underscores c cs else None)
      else if prev = CHR ''_'' \<and> \<not> isdigit c then None
      else map_option ((#) c) (remove_underscores c cs))"

text \<open>
  The decimal number at the start of a text, as \<open>strtod\<close> reads it: a sign, digits with at
  most one point and at least one digit, and an exponent, which is read only when it has a
  digit. The result is the sign, the digits \<open>n\<close> and the power of ten \<open>k\<close> of the number
  \<open>n * 10^k\<close>, and the text left over; \<open>None\<close> when no number starts the text.
\<close>

definition read_sign :: "string \<Rightarrow> bool \<times> string" where
  "read_sign s =
     (case s of
        c # cs \<Rightarrow> if c = CHR ''-'' then (True, cs) else if c = CHR ''+'' then (False, cs)
                  else (False, s)
      | [] \<Rightarrow> (False, s))"

definition read_exponent :: "string \<Rightarrow> int \<times> string" where
  "read_exponent s =
     (case s of
        c # cs \<Rightarrow>
          if c = CHR ''e'' \<or> c = CHR ''E'' then
            (let (esign, s1) = read_sign cs;
                 ds = takeWhile isdigit s1
             in if ds = [] then (0, s)
                else ((if esign then - int (digits_value ds) else int (digits_value ds)),
                      dropWhile isdigit s1))
          else (0, s)
      | [] \<Rightarrow> (0, s))"

definition strtod :: "string \<Rightarrow> ((bool \<times> nat \<times> int) \<times> string) option" where
  "strtod s00 =
     (let (sign, s) = read_sign s00;
          ip = takeWhile isdigit s;
          s1 = dropWhile isdigit s;
          (fp, s2) = (case s1 of
                        c # cs \<Rightarrow> if c = CHR ''.'' then (takeWhile isdigit cs, dropWhile isdigit cs)
                                  else ([], s1)
                      | [] \<Rightarrow> ([], s1))
      in if ip = [] \<and> fp = [] then None
         else let (e, s3) = read_exponent s2
              in Some ((sign, digits_value (ip @ fp), e - int (length fp)), s3))"

text \<open>\<open>inf\<close>, \<open>infinity\<close> and \<open>nan\<close>, with a sign, in either case of the ASCII letters.\<close>

definition tolower :: "char \<Rightarrow> char" where
  "tolower c = (if 65 \<le> code_point c \<and> code_point c \<le> 90 then char_of (code_point c + 32) else c)"

definition case_insensitive_match :: "string \<Rightarrow> string \<Rightarrow> bool" where
  "case_insensitive_match s t = (map tolower (take (length t) s) = t)"

definition parse_inf_or_nan :: "string \<Rightarrow> (pyfloat \<times> string) option" where
  "parse_inf_or_nan p =
     (let (negate, s) = read_sign p in
        if case_insensitive_match s ''inf'' then
          (if case_insensitive_match (drop 3 s) ''inity'' then Some (Infinity negate, drop 8 s)
           else Some (Infinity negate, drop 3 s))
        else if case_insensitive_match s ''nan'' then Some (NaN, drop 3 s)
        else None)"

text \<open>
  \<open>float(value)\<close>: \<open>None\<close> is the \<open>ValueError\<close> of a text that is not a number. The number
  read is rounded to the nearest float.
\<close>

definition decimal_to_double :: "bool \<times> nat \<times> int \<Rightarrow> pyfloat" where
  "decimal_to_double d =
     (case d of (sign, n, k) \<Rightarrow>
        if 0 \<le> k then round_to_double sign (n * 10 ^ nat k) 1
        else round_to_double sign n (10 ^ nat (- k)))"

definition py_float :: "string \<Rightarrow> pyfloat option" where
  "py_float v =
     (case remove_underscores (CHR 0x00) v of
        None \<Rightarrow> None
      | Some u \<Rightarrow>
          let s = dropWhile float_isspace u in
            if s = [] then None
            else
              let t = rev (dropWhile float_isspace (rev s)) in
                (case strtod t of
                   Some (d, rest) \<Rightarrow> if rest = [] then Some (decimal_to_double d) else None
                 | None \<Rightarrow>
                     (case parse_inf_or_nan t of
                        Some (x, rest) \<Rightarrow> if rest = [] then Some x else None
                      | None \<Rightarrow> None)))"

text \<open>
  \<open>math.ceil(x)\<close>: an integer, or the \<open>OverflowError\<close> of an infinity, or the
  \<open>ValueError\<close> of a NaN.
\<close>

fun ceil :: "pyfloat \<Rightarrow> exn + int" where
  "ceil (Finite s m e) =
     (if 0 \<le> e then Inr ((if s then - 1 else 1) * int (m * 2 ^ nat e))
      else let d = 2 ^ nat (- e)
           in if s then Inr (- int (m div d)) else Inr (int ((m + d - 1) div d)))"
| "ceil (Infinity s) = Inl OverflowError"
| "ceil NaN = Inl ValueError"

section \<open>The models\<close>

record Item =
  shortDescription :: string
  price :: string

record Receipt =
  retailer :: string
  purchaseDate :: string
  purchaseTime :: string
  items :: "Item list"
  total :: string

subsection \<open>Validators of the character sets\<close>

definition validate_short_description :: "string \<Rightarrow> exn + string" where
  "validate_short_description v =
     (if \<not> list_all (\<lambda>c. isalnum c \<or> in_space_hyphen_underscore c) v
      then Inl ValueError
      else Inr v)"

definition validate_retailer :: "string \<Rightarrow> exn + string" where
  "validate_retailer v =
     (if \<not> list_all (\<lambda>c. isalnum c \<or> in_space_hyphen_amp_underscore c) v
      then Inl ValueError
      else Inr v)"

subsection \<open>The validator of prices and totals\<close>

text \<open>\<open>value.split(sep)\<close>: the pieces between the separators, never an empty list.\<close>

fun split :: "char \<Rightarrow> string \<Rightarrow> string list" where
  "split sep [] = [[]]"
| "split sep (c # cs) =
     (if c = sep then [] # split sep cs
      else (case split sep cs of
              x # xs \<Rightarrow> (c # x) # xs
            | [] \<Rightarrow> [[c]]))"

text \<open>
  Every \<open>ValueError\<close> raised in the \<open>try\<close> block, by \<open>float\<close> or by one of the two
  tests, is caught and raised again as the one \<open>ValueError\<close> of the \<open>except\<close> clause.
\<close>

definition validate_price :: "string \<Rightarrow> exn + string" where
  "validate_price v =
     (case py_float v of
        None \<Rightarrow> Inl ValueError
      | Some p \<Rightarrow>
          if float_lt_zero p then Inl ValueError
          else if length (last (split (CHR ''.'') v)) \<noteq> 2 then Inl ValueError
          else Inr v)"

definition validate_total :: "string \<Rightarrow> exn + string" where
  "validate_total v = validate_price v"

subsection \<open>Validation of a request body\<close>

text \<open>
  pydantic runs the validators of the fields when a model is built from a request body, and
  raises one \<open>ValidationError\<close> when any of them raised. \<open>purchaseDate\<close> and
  \<open>purchaseTime\<close> are of type \<open>str\<close> and have no validator.
\<close>

definition validate_Item :: "Item \<Rightarrow> exn + Item" where
  "validate_Item i =
     (case (validate_short_description (shortDescription i), validate_price (price i)) of
        (Inr d, Inr p) \<Rightarrow> Inr \<lparr>shortDescription = d, price = p\<rparr>
      | _ \<Rightarrow> Inl ValidationError)"

fun validate_items :: "Item list \<Rightarrow> exn + Item list" where
  "validate_items [] = Inr []"
| "validate_items (i # rest) =
     (case (validate_Item i, validate_items rest) of
        (Inr i', Inr rest') \<Rightarrow> Inr (i' # rest')
      | _ \<Rightarrow> Inl ValidationError)"

definition validate_Receipt :: "Receipt \<Rightarrow> exn + Receipt" where
  "validate_Receipt r =
     (case (validate_retailer (retailer r), validate_items (items r), validate_total (total r)) of
        (Inr rt, Inr its, Inr t) \<Rightarrow>
          Inr \<lparr>retailer = rt, purchaseDate = purchaseDate r, purchaseTime = purchaseTime r,
               items = its, total = t\<rparr>
      | _ \<Rightarrow> Inl ValidationError)"

section \<open>Reading dates and times: \<open>datetime.strptime\<close>\<close>

text \<open>
  \<open>strptime\<close> turns the format into a regular expression, matches it at the start of the
  text, and raises \<open>ValueError\<close> when there is no match or when text is left after the
  match. A piece of the expression is modelled by the list of its matches, each with the text
  that follows it, in the order in which the matcher tries them.
\<close>

definition digit_in :: "nat \<Rightarrow> nat \<Rightarrow> string \<Rightarrow> (nat \<times> string) list" where
  "digit_in lo hi s =
     (case s of
        c # cs \<Rightarrow>
          if isdigit c \<and> lo \<le> code_point c - 48 \<and> code_point c - 48 \<le> hi
          then [(code_point c - 48, cs)] else []
      | [] \<Rightarrow> [])"

definition two_digits :: "nat \<Rightarrow> nat \<Rightarrow> nat \<Rightarrow> nat \<Rightarrow> string \<Rightarrow> (nat \<times> string) list" where
  "two_digits alo ahi blo bhi s =
     concat (map (\<lambda>(a, r). map (\<lambda>(b, r'). (10 * a + b, r')) (digit_in blo bhi r))
                 (digit_in alo ahi s))"

definition literal :: "char \<Rightarrow> string \<Rightarrow> string list" where
  "literal x s = (case s of c # cs \<Rightarrow> if c = x then [cs] else [] | [] \<Rightarrow> [])"

text \<open>\<open>%Y\<close> is \<open>\d\d\d\d\<close>.\<close>

definition regex_Y :: "string \<Rightarrow> (nat \<times> string) list" where
  "regex_Y s =
     concat (map (\<lambda>(a, r). map (\<lambda>(b, r'). (100 * a + b, r')) (two_digits 0 9 0 9 r))
                 (two_digits 0 9 0 9 s))"

text \<open>\<open>%m\<close> is \<open>1[0-2]|0[1-9]|[1-9]\<close>.\<close>

definition regex_m :: "string \<Rightarrow> (nat \<times> string) list" where
  "regex_m s = two_digits 1 1 0 2 s @ two_digits 0 0 1 9 s @ digit_in 1 9 s"

text \<open>\<open>%d\<close> is \<open>3[0-1]|[1-2]\d|0[1-9]|[1-9]| [1-9]\<close>.\<close>

definition regex_d :: "string \<Rightarrow> (nat \<times> string) list" where
  "regex_d s =
     two_digits 3 3 0 1 s @ two_digits 1 2 0 9 s @ two_digits 0 0 1 9 s @ digit_in 1 9 s @
     concat (map (digit_in 1 9) (literal (CHR '' '') s))"

text \<open>\<open>%H\<close> is \<open>2[0-3]|[0-1]\d|\d\<close> and \<open>%M\<close> is \<open>[0-5]\d|\d\<close>.\<close>

definition regex_H :: "string \<Rightarrow> (nat \<times> string) list" where
  "regex_H s = two_digits 2 2 0 3 s @ two_digits 0 1 0 9 s @ digit_in 0 9 s"

definition regex_M :: "string \<Rightarrow> (nat \<times> string) list" where
  "regex_M s = two_digits 0 5 0 9 s @ digit_in 0 9 s"

text \<open>The matches of the expressions of \<open>"%Y-%m-%d"\<close> and of \<open>"%H:%M"\<close>.\<close>

definition regex_date :: "string \<Rightarrow> ((nat \<times> nat \<times> nat) \<times> string) list" where
  "regex_date s =
     concat (map (\<lambda>(y, r1).
       concat (map (\<lambda>r2.
         concat (map (\<lambda>(m, r3).
           concat (map (\<lambda>r4.
             map (\<lambda>(d, r5). ((y, m, d), r5)) (regex_d r4))
           (literal (CHR ''-'') r3)))
         (regex_m r2)))
       (literal (CHR ''-'') r1)))
     (regex_Y s))"

definition regex_time :: "string \<Rightarrow> ((nat \<times> nat) \<times> string) list" where
  "regex_time s =
     concat (map (\<lambda>(h, r1).
       concat (map (\<lambda>r2.
         map (\<lambda>(m, r3). ((h, m), r3)) (regex_M r2))
       (literal (CHR '':'') r1)))
     (regex_H s))"

text \<open>The calendar: \<open>datetime\<close> refuses the year 0 and a day that the month does not have.\<close>

definition is_leap :: "nat \<Rightarrow> bool" where
  "is_leap y = (y mod 4 = 0 \<and> (y mod 100 \<noteq> 0 \<or> y mod 400 = 0))"

definition days_in_month :: "nat \<Rightarrow> nat \<Rightarrow> nat" where
  "days_in_month y m =
     (if m = 2 then (if is_leap y then 29 else 28)
      else if m = 4 \<or> m = 6 \<or> m = 9 \<or> m = 11 then 30 else 31)"

text \<open>
  \<open>datetime.strptime(s, "%Y-%m-%d")\<close>, as year, month and day, and
  \<open>datetime.strptime(s, "%H:%M")\<close>, as hour and minute; \<open>None\<close> is the \<open>ValueError\<close>.
\<close>

definition strptime_date :: "string \<Rightarrow> (nat \<times> nat \<times> nat) option" where
  "strptime_date s =
     (case regex_date s of
        [] \<Rightarrow> None
      | ((y, m, d), rest) # others \<Rightarrow>
          if rest \<noteq> [] then None
          else if 1 \<le> y \<and> d \<le> days_in_month y m then Some (y, m, d)
          else None)"

definition strptime_time :: "string \<Rightarrow> (nat \<times> nat) option" where
  "strptime_time s =
     (case regex_time s of
        [] \<Rightarrow> None
      | ((h, m), rest) # others \<Rightarrow> if rest \<noteq> [] then None else Some (h, m))"

section \<open>The rule engine\<close>

text \<open>The contributions of the rules, in the order of \<open>calculate_points\<close>.\<close>

definition retailer_points :: "string \<Rightarrow> int" where
  "retailer_points retailer_name = int (length (filter isalnum retailer_name))"

definition round_dollar_points :: "pyfloat \<Rightarrow> int" where
  "round_dollar_points t = (if is_integer t then 50 else 0)"

definition quarter_points :: "pyfloat \<Rightarrow> int" where
  "quarter_points t = (if mod_quarter_eq_zero t then 25 else 0)"

definition pair_points :: "Item list \<Rightarrow> int" where
  "pair_points its = int (length its div 2) * 5"

text \<open>
  The loop over the items: the float of the price is computed for every item, the bonus is
  added when the length of the stripped description is a multiple of 3.
\<close>

fun items_loop :: "Item list \<Rightarrow> int \<Rightarrow> exn + int" where
  "items_loop [] points = Inr points"
| "items_loop (item # rest) points =
     (let description = strip (shortDescription item) in
        case py_float (price item) of
          None \<Rightarrow> Inl ValueError
        | Some p \<Rightarrow>
            if length description mod 3 = 0 then
              (case ceil (float_mul p float_0_2) of
                 Inl e \<Rightarrow> Inl e
               | Inr c \<Rightarrow> items_loop rest (points + c))
            else items_loop rest points)"

definition odd_day_points :: "nat \<times> nat \<times> nat \<Rightarrow> int" where
  "odd_day_points purchase_date =
     (case purchase_date of (y, m, d) \<Rightarrow> if d mod 2 = 1 then 6 else 0)"

definition afternoon_points :: "nat \<times> nat \<Rightarrow> int" where
  "afternoon_points purchase_time =
     (case purchase_time of (h, m) \<Rightarrow> if 14 \<le> h \<and> h < 16 then 10 else 0)"

definition calculate_points :: "Receipt \<Rightarrow> exn + int" where
  "calculate_points receipt =
     (let points = 0 + retailer_points (retailer receipt) in
        (case py_float (total receipt) of
           None \<Rightarrow> Inl ValueError
         | Some t \<Rightarrow>
             (let points = points + round_dollar_points t;
                  points = points + quarter_points t;
                  points = points + pair_points (items receipt)
              in (case items_loop (items receipt) points of
                    Inl e \<Rightarrow> Inl e
                  | Inr points \<Rightarrow>
                      (case strptime_date (purchaseDate receipt) of
                         None \<Rightarrow> Inl ValueError
                       | Some purchase_date \<Rightarrow>
                           (let points = points + odd_day_points purchase_date
                            in (case strptime_time (purchaseTime receipt) of
                                  None \<Rightarrow> Inl ValueError
                                | Some purchase_time \<Rightarrow>
                                    Inr (points + afternoon_points purchase_time))))))))"

section \<open>The store and the two operations\<close>

text \<open>
  \<open>receipts_db\<close> is the dictionary of the stored receipts. An operation takes the dictionary
  and returns it with its result; the identifier that \<open>uuid4\<close> draws is an argument.
\<close>

type_synonym receipts_db = "string \<rightharpoonup> Receipt"

definition process_receipt ::
  "receipts_db \<Rightarrow> string \<Rightarrow> Receipt \<Rightarrow> (exn + string) \<times> receipts_db" where
  "process_receipt db receipt_id receipt =
     (if retailer receipt = [] \<or> items receipt = [] \<or> total receipt = []
      then (Inl (HTTPException 400 ''The receipt is invalid.''), db)
      else (Inr receipt_id, db(receipt_id \<mapsto> receipt)))"

text \<open>
  The route \<open>POST /receipts/process\<close>: the body is validated as a \<open>Receipt\<close> before
  \<open>process_receipt\<close> is called; a body that fails is answered without a call.
\<close>

definition post_receipts_process ::
  "receipts_db \<Rightarrow> string \<Rightarrow> Receipt \<Rightarrow> (exn + string) \<times> receipts_db" where
  "post_receipts_process db receipt_id body =
     (case validate_Receipt body of
        Inl e \<Rightarrow> (Inl e, db)
      | Inr receipt \<Rightarrow> process_receipt db receipt_id receipt)"

definition get_receipt_points :: "receipts_db \<Rightarrow> string \<Rightarrow> (exn + int) \<times> receipts_db" where
  "get_receipt_points db ident =
     (case db ident of
        None \<Rightarrow> (Inl (HTTPException 404 ''No receipt found for that ID.''), db)
      | Some receipt \<Rightarrow> (calculate_points receipt, db))"

section \<open>Example receipts\<close>

definition example_receipt :: Receipt where
  "example_receipt =
     \<lparr>retailer = ''Target'', purchaseDate = ''2022-01-02'', purchaseTime = ''13:01'',
      items = [\<lparr>shortDescription = ''Pepsi - 12-oz'', price = ''1.25''\<rparr>,
               \<lparr>shortDescription = ''Dasani'', price = ''1.40''\<rparr>],
      total = ''2.65''\<rparr>"

definition malformed_date_receipt :: Receipt where
  "malformed_date_receipt = example_receipt\<lparr>purchaseDate := ''not-a-date''\<rparr>"

definition blank_description_item :: Item where
  "blank_description_item = \<lparr>shortDescription = ''   '', price = ''12.25''\<rparr>"




section \<open>Evaluation and the exceptions of the rule engine\<close>

lemmas char_eval = code_point_def isalnum_def isspace_def isdigit_def float_isspace_def
  in_space_hyphen_underscore_def in_space_hyphen_amp_underscore_def

lemmas float_eval = py_float_def strtod_def read_sign_def read_exponent_def digits_value_def
  decimal_to_double_def round_to_double_def floor_log2_def round_half_even_def
  parse_inf_or_nan_def case_insensitive_match_def tolower_def compute_floorlog Let_def

lemmas strptime_eval = strptime_date_def strptime_time_def regex_date_def regex_time_def
  regex_Y_def regex_m_def regex_d_def regex_H_def regex_M_def two_digits_def digit_in_def
  literal_def days_in_month_def is_leap_def

lemmas validate_eval = validate_Receipt_def validate_Item_def validate_retailer_def
  validate_short_description_def validate_total_def validate_price_def

lemmas points_eval = calculate_points_def retailer_points_def round_dollar_points_def
  quarter_points_def pair_points_def odd_day_points_def afternoon_points_def strip_def
  float_0_2_def

lemma float_0_2_literal: "py_float ''0.2'' = Some float_0_2"
  by (simp add: float_0_2_def float_eval char_eval)

lemma ceil_error: "ceil x = Inl e \<Longrightarrow> e = ValueError \<or> e = OverflowError"
  by (cases x) (auto simp: Let_def split: if_splits)

lemma items_loop_error:
  "items_loop its acc = Inl e \<Longrightarrow> e = ValueError \<or> e = OverflowError"
proof (induction its arbitrary: acc)
  case Nil
  then show ?case by simp
next
  case (Cons item rest)
  then show ?case
    by (auto simp: Let_def split: option.splits if_splits sum.splits dest: ceil_error)
qed

lemma calculate_points_error:
  "calculate_points r = Inl e \<Longrightarrow> e = ValueError \<or> e = OverflowError"
  by (auto simp: calculate_points_def Let_def split: option.splits sum.splits
           dest: items_loop_error)

lemma example_receipt_valid: "validate_Receipt example_receipt = Inr example_receipt"
  by (simp add: example_receipt_def validate_eval float_eval char_eval)

lemma example_receipt_points: "calculate_points example_receipt = Inr 12"
  by (simp add: example_receipt_def points_eval float_eval char_eval strptime_eval)

lemma validate_Item_same: "validate_Item i = Inr i' \<Longrightarrow> i' = i"
  by (auto simp: validate_Item_def validate_short_description_def validate_price_def
           split: sum.splits option.splits if_splits)

lemma validate_items_same: "validate_items its = Inr its' \<Longrightarrow> its' = its"
proof (induction its arbitrary: its')
  case Nil
  then show ?case by simp
next
  case (Cons i rest)
  then show ?case by (auto split: sum.splits dest: validate_Item_same)
qed

lemma validate_Receipt_same:
  assumes "validate_Receipt r = Inr r'"
  shows "r' = r" and "validate_retailer (retailer r) = Inr (retailer r)"
    and "validate_total (total r) = Inr (total r)"
    and "validate_items (items r) = Inr (items r)"
  using assms
  by (auto simp: validate_Receipt_def validate_retailer_def validate_total_def
        validate_price_def split: sum.splits option.splits if_splits
        dest: validate_items_same)

lemma validate_Receipt_error: "validate_Receipt r = Inl e \<Longrightarrow> e = ValidationError"
  by (auto simp: validate_Receipt_def split: sum.splits)


lemma validate_price_examples:
  "validate_price ''19.9'' = Inl ValueError"
  "validate_price ''19.999'' = Inl ValueError"
  "validate_price ''19.99'' = Inr ''19.99''"
  "validate_price ''abc'' = Inl ValueError"
  by (simp_all add: validate_price_def float_eval char_eval)

lemma py_float_empty: "py_float [] = None"
  by (simp add: py_float_def)

section \<open>Rounding to a float\<close>


















section \<open>The range of the floats and of the bonuses\<close>



lemma round_to_double_cases:
  "(\<exists>m q. round_to_double s a b = Finite s m q) \<or> round_to_double s a b = Infinity s"
  by (simp add: round_to_double_def Let_def)

















section \<open>Properties of the validators\<close>

text \<open>
  C3 (as amended). The shortDescription validator accepts a string if and only if every
  character is alphanumeric or one of space, hyphen and underscore; it returns the string
  unchanged, and the empty string is accepted: there is no test of emptiness.
\<close>

theorem C3_short_description_charset:
  "(validate_short_description v = Inr v \<longleftrightarrow>
      (\<forall>c \<in> set v. isalnum c \<or> c = CHR '' '' \<or> c = CHR ''-'' \<or> c = CHR ''_'')) \<and>
   (validate_short_description v \<noteq> Inr v \<longrightarrow> validate_short_description v = Inl ValueError) \<and>
   validate_short_description [] = Inr []"
  by (auto simp: validate_short_description_def in_space_hyphen_underscore_def list_all_iff)

theorem C3_short_description_charset_witness:
  "validate_short_description ''Item-123'' = Inr ''Item-123'' \<and>
   validate_short_description ''Invalid@Item!'' = Inl ValueError"
  using C3_short_description_charset [of "''Item-123''"]
        C3_short_description_charset [of "''Invalid@Item!''"]
  by (simp add: isalnum_def code_point_def)

text \<open>
  C3 as stated fails: the empty string is accepted, although it is not non-empty.
\<close>

theorem C3_empty_description_counterexample:
  "\<not> (validate_short_description [] = Inr [] \<longleftrightarrow>
        ([] :: string) \<noteq> [] \<and>
        (\<forall>c \<in> set []. isalnum c \<or> c = CHR '' '' \<or> c = CHR ''-'' \<or> c = CHR ''_''))"
  by (simp add: validate_short_description_def)

section \<open>Properties of the store\<close>

text \<open>
  C8. Fetch-points answers with the not-found response, status 404 and message
  "No receipt found for that ID.", exactly when the identifier is not a key of the store; and
  when a submission has succeeded and issued an identifier, the identifier is a key of the new
  store and a fetch of its points there is never answered with not-found.
\<close>

theorem C8_not_found_iff_absent:
  "(fst (get_receipt_points db ident) = Inl (HTTPException 404 ''No receipt found for that ID.'')
      \<longleftrightarrow> ident \<notin> dom db) \<and>
   (post_receipts_process db receipt_id body = (Inr issued, db') \<longrightarrow>
      issued \<in> dom db' \<and>
      (\<forall>e. fst (get_receipt_points db' issued) = Inl e \<longrightarrow> status_code e \<noteq> 404))"
proof (intro conjI impI)
  show "fst (get_receipt_points db ident) = Inl (HTTPException 404 ''No receipt found for that ID.'')
      \<longleftrightarrow> ident \<notin> dom db"
    by (auto simp: get_receipt_points_def split: option.splits dest: calculate_points_error)
next
  assume a: "post_receipts_process db receipt_id body = (Inr issued, db')"
  then obtain r where r: "process_receipt db receipt_id r = (Inr issued, db')"
    by (auto simp: post_receipts_process_def split: sum.splits)
  then have d: "db' = db(issued \<mapsto> r)"
    by (auto simp: process_receipt_def split: if_splits)
  then show "issued \<in> dom db'" by simp
  show "\<forall>e. fst (get_receipt_points db' issued) = Inl e \<longrightarrow> status_code e \<noteq> 404"
    using d by (auto simp: get_receipt_points_def dest: calculate_points_error)
qed

theorem C8_not_found_iff_absent_witness:
  "fst (get_receipt_points Map.empty ''7fb1377b'') =
     Inl (HTTPException 404 ''No receipt found for that ID.'') \<and>
   post_receipts_process Map.empty ''7fb1377b'' example_receipt =
     (Inr ''7fb1377b'', [''7fb1377b'' \<mapsto> example_receipt]) \<and>
   fst (get_receipt_points [''7fb1377b'' \<mapsto> example_receipt] ''7fb1377b'') = Inr 12"
  using C8_not_found_iff_absent [of Map.empty "''7fb1377b''" "''7fb1377b''" example_receipt
      "''7fb1377b''" "[''7fb1377b'' \<mapsto> example_receipt]"]
  by (simp add: post_receipts_process_def example_receipt_valid process_receipt_def
      get_receipt_points_def example_receipt_points)
     (simp add: example_receipt_def)

text \<open>
  C9. Fetch-points leaves the store as it was, so a second fetch of the same identifier returns
  what the first returned: the points are a function of the stored receipt alone.
\<close>

theorem C9_fetch_twice_same:
  "get_receipt_points db ident = (res, db') \<Longrightarrow>
     db' = db \<and> get_receipt_points db' ident = (res, db')"
  by (auto simp: get_receipt_points_def split: option.splits)

theorem C9_fetch_twice_same_witness:
  "get_receipt_points [''7fb1377b'' \<mapsto> example_receipt] ''7fb1377b'' =
     (Inr 12, [''7fb1377b'' \<mapsto> example_receipt]) \<and>
   get_receipt_points (snd (get_receipt_points [''7fb1377b'' \<mapsto> example_receipt] ''7fb1377b''))
     ''7fb1377b'' = (Inr 12, [''7fb1377b'' \<mapsto> example_receipt])"
  using C9_fetch_twice_same [of "[''7fb1377b'' \<mapsto> example_receipt]" "''7fb1377b''" "Inr 12"
      "[''7fb1377b'' \<mapsto> example_receipt]"]
  by (simp add: get_receipt_points_def example_receipt_points)

section \<open>Properties of the submission\<close>

text \<open>
  C7 (as amended). The submission refuses, and leaves the store as it was: a receipt whose
  retailer contains "@" and a receipt whose total is empty, through the validators of the
  fields (the \<open>ValidationError\<close> of the body); a receipt whose retailer or list of items
  is empty, when its fields pass the validators, through the test of \<open>process_receipt\<close>,
  which refuses an empty retailer, list of items or total with the status 400 and the detail
  "The receipt is invalid.". Both answers are client errors; they are two answers, not one.
\<close>

theorem C7_rejections:
  "((CHR ''@'' \<in> set (retailer body) \<or> total body = []) \<longrightarrow>
      post_receipts_process db receipt_id body = (Inl ValidationError, db)) \<and>
   ((retailer body = [] \<or> items body = []) \<longrightarrow>
      post_receipts_process db receipt_id body =
        (if validate_Receipt body = Inr body
         then (Inl (HTTPException 400 ''The receipt is invalid.''), db)
         else (Inl ValidationError, db))) \<and>
   ((retailer r = [] \<or> items r = [] \<or> total r = []) \<longrightarrow>
      process_receipt db receipt_id r = (Inl (HTTPException 400 ''The receipt is invalid.''), db)) \<and>
   client_error ValidationError \<and>
   client_error (HTTPException 400 ''The receipt is invalid.'')"
proof (intro conjI impI)
  assume bad: "CHR ''@'' \<in> set (retailer body) \<or> total body = []"
  have "validate_Receipt body \<noteq> Inr r'" for r'
  proof
    assume ok: "validate_Receipt body = Inr r'"
    then have rt: "validate_retailer (retailer body) = Inr (retailer body)"
      and tt: "validate_total (total body) = Inr (total body)"
      by (rule validate_Receipt_same)+
    have "CHR ''@'' \<notin> set (retailer body)"
      using rt by (auto simp: validate_retailer_def list_all_iff char_eval split: if_splits)
    moreover have "total body \<noteq> []"
      using tt by (auto simp: validate_total_def validate_price_def py_float_empty)
    ultimately show False using bad by blast
  qed
  then obtain e where "validate_Receipt body = Inl e" by (cases "validate_Receipt body") auto
  moreover from this have "e = ValidationError" by (rule validate_Receipt_error)
  ultimately show "post_receipts_process db receipt_id body = (Inl ValidationError, db)"
    by (simp add: post_receipts_process_def)
next
  assume empty: "retailer body = [] \<or> items body = []"
  show "post_receipts_process db receipt_id body =
        (if validate_Receipt body = Inr body
         then (Inl (HTTPException 400 ''The receipt is invalid.''), db)
         else (Inl ValidationError, db))"
  proof (cases "validate_Receipt body")
    case (Inl e)
    then have "e = ValidationError" by (rule validate_Receipt_error)
    then show ?thesis using Inl by (simp add: post_receipts_process_def)
  next
    case (Inr r')
    then have "r' = body" by (rule validate_Receipt_same)
    then show ?thesis using Inr empty
      by (auto simp: post_receipts_process_def process_receipt_def)
  qed
next
  assume "retailer r = [] \<or> items r = [] \<or> total r = []"
  then show "process_receipt db receipt_id r =
      (Inl (HTTPException 400 ''The receipt is invalid.''), db)"
    by (auto simp: process_receipt_def)
qed (simp_all add: client_error_def)

theorem C7_rejections_witness:
  "post_receipts_process Map.empty ''7fb1377b'' (example_receipt\<lparr>retailer := ''Retailer@123''\<rparr>)
     = (Inl ValidationError, Map.empty) \<and>
   post_receipts_process Map.empty ''7fb1377b'' (example_receipt\<lparr>total := []\<rparr>)
     = (Inl ValidationError, Map.empty) \<and>
   post_receipts_process Map.empty ''7fb1377b'' (example_receipt\<lparr>items := []\<rparr>)
     = (Inl (HTTPException 400 ''The receipt is invalid.''), Map.empty) \<and>
   post_receipts_process Map.empty ''7fb1377b'' (example_receipt\<lparr>retailer := []\<rparr>)
     = (Inl (HTTPException 400 ''The receipt is invalid.''), Map.empty)"
  using C7_rejections [of "example_receipt\<lparr>retailer := ''Retailer@123''\<rparr>" Map.empty
          "''7fb1377b''" example_receipt]
        C7_rejections [of "example_receipt\<lparr>total := []\<rparr>" Map.empty
          "''7fb1377b''" example_receipt]
        C7_rejections [of "example_receipt\<lparr>items := []\<rparr>" Map.empty
          "''7fb1377b''" example_receipt]
        C7_rejections [of "example_receipt\<lparr>retailer := []\<rparr>" Map.empty
          "''7fb1377b''" example_receipt]
  by (simp add: example_receipt_def validate_eval float_eval char_eval)

text \<open>
  C7 as stated fails: the rejections do not take the same path. The retailer with "@" is
  refused with the \<open>ValidationError\<close> of the body, status 422, the empty list of items
  with the \<open>HTTPException\<close> of status 400.
\<close>

theorem C7_two_paths_counterexample:
  "fst (post_receipts_process Map.empty ''7fb1377b'' (example_receipt\<lparr>retailer := ''Retailer@123''\<rparr>))
     = Inl ValidationError \<and>
   fst (post_receipts_process Map.empty ''7fb1377b'' (example_receipt\<lparr>items := []\<rparr>))
     = Inl (HTTPException 400 ''The receipt is invalid.'') \<and>
   status_code ValidationError = 422 \<and>
   status_code (HTTPException 400 ''The receipt is invalid.'') = 400 \<and>
   fst (post_receipts_process Map.empty ''7fb1377b'' (example_receipt\<lparr>retailer := ''Retailer@123''\<rparr>))
     \<noteq> fst (post_receipts_process Map.empty ''7fb1377b'' (example_receipt\<lparr>items := []\<rparr>))"
  by (simp add: post_receipts_process_def process_receipt_def example_receipt_def
        validate_eval float_eval char_eval)

text \<open>
  C1 fails on the code: \<open>purchaseDate\<close> and \<open>purchaseTime\<close> have no validator. The
  receipt below, whose date is the text "not-a-date", is accepted and stored under the
  identifier issued, and the later fetch of its points reaches the rule engine, where
  \<open>strptime\<close> raises a \<open>ValueError\<close> that nothing catches.
\<close>

theorem C1_malformed_date_accepted:
  "post_receipts_process Map.empty ''7fb1377b'' malformed_date_receipt =
     (Inr ''7fb1377b'', [''7fb1377b'' \<mapsto> malformed_date_receipt]) \<and>
   get_receipt_points [''7fb1377b'' \<mapsto> malformed_date_receipt] ''7fb1377b'' =
     (Inl ValueError, [''7fb1377b'' \<mapsto> malformed_date_receipt])"
  by (simp add: post_receipts_process_def process_receipt_def get_receipt_points_def
        malformed_date_receipt_def example_receipt_def validate_eval points_eval
        float_eval char_eval strptime_eval)

text \<open>
  C2 fails on the code: the text "12" has no decimal point, and the validator of prices and
  totals accepts it, because the last piece of a text without a point is the whole text, here
  of length 2.
\<close>

theorem C2_missing_point_accepted: "validate_price ''12'' = Inr ''12''"
  by (simp add: validate_price_def float_eval char_eval)

section \<open>Properties of the rule engine\<close>

text \<open>
  C6. The afternoon bonus is exactly 10 points when the hour of \<open>purchaseTime\<close> is 14 or
  15, and nothing otherwise, whatever the minutes: replacing the time of a scored receipt by
  another time that \<open>strptime\<close> reads changes the points by the difference of the two
  bonuses only. "14:00" is read as hour 14, "16:00" as hour 16 and "13:59" as hour 13.
\<close>

theorem C6_afternoon_bonus:
  "(calculate_points r = Inr p \<and> strptime_time (purchaseTime r) = Some (h, m) \<and>
    strptime_time t' = Some (h', m') \<longrightarrow>
      calculate_points (r\<lparr>purchaseTime := t'\<rparr>) =
        Inr (p - (if 14 \<le> h \<and> h < 16 then 10 else 0) + (if 14 \<le> h' \<and> h' < 16 then 10 else 0))) \<and>
   strptime_time ''14:00'' = Some (14, 0) \<and>
   strptime_time ''16:00'' = Some (16, 0) \<and>
   strptime_time ''13:59'' = Some (13, 59)"
proof (intro conjI impI)
  assume a: "calculate_points r = Inr p \<and> strptime_time (purchaseTime r) = Some (h, m) \<and>
    strptime_time t' = Some (h', m')"
  then show "calculate_points (r\<lparr>purchaseTime := t'\<rparr>) =
        Inr (p - (if 14 \<le> h \<and> h < 16 then 10 else 0) + (if 14 \<le> h' \<and> h' < 16 then 10 else 0))"
    by (auto simp: calculate_points_def afternoon_points_def Let_def
             split: option.splits sum.splits)
qed (simp_all add: strptime_eval char_eval)

theorem C6_afternoon_bonus_witness:
  "calculate_points (example_receipt\<lparr>purchaseTime := ''14:00''\<rparr>) = Inr 22 \<and>
   calculate_points (example_receipt\<lparr>purchaseTime := ''16:00''\<rparr>) = Inr 12 \<and>
   calculate_points (example_receipt\<lparr>purchaseTime := ''13:59''\<rparr>) = Inr 12"
  using C6_afternoon_bonus [of example_receipt 12 13 1 "''14:00''" 14 0]
        C6_afternoon_bonus [of example_receipt 12 13 1 "''16:00''" 16 0]
        C6_afternoon_bonus [of example_receipt 12 13 1 "''13:59''" 13 59]
  by (simp add: example_receipt_points)
     (simp add: example_receipt_def strptime_eval char_eval)

text \<open>
  C10. An item whose description is empty once stripped has a description of length 0, which
  is a multiple of 3: the loop adds \<open>ceil(price * 0.2)\<close> for it. A description of spaces
  only passes the validator of descriptions and is such a description.
\<close>

theorem C10_blank_description_bonus:
  "(strip (shortDescription item) = [] \<and> py_float (price item) = Some p \<longrightarrow>
      items_loop (item # rest) points =
        (case ceil (float_mul p float_0_2) of
           Inl e \<Rightarrow> Inl e
         | Inr c \<Rightarrow> items_loop rest (points + c))) \<and>
   validate_short_description ''   '' = Inr ''   '' \<and>
   strip ''   '' = []"
proof (intro conjI impI)
  assume "strip (shortDescription item) = [] \<and> py_float (price item) = Some p"
  then show "items_loop (item # rest) points =
        (case ceil (float_mul p float_0_2) of
           Inl e \<Rightarrow> Inl e
         | Inr c \<Rightarrow> items_loop rest (points + c))"
    by (simp add: Let_def)
qed (simp_all add: validate_short_description_def strip_def char_eval)

theorem C10_blank_description_bonus_witness:
  "validate_Item blank_description_item = Inr blank_description_item \<and>
   items_loop [blank_description_item] 0 = Inr 3"
  using C10_blank_description_bonus [of blank_description_item "Finite False 6896136929411072 (- 49)" "[]" 0]
  by (simp add: blank_description_item_def validate_eval float_eval char_eval strip_def
        float_0_2_def)







end
